theory Spec2Isabelle
  imports Main "HOL-Library.Sublist"
begin

section \<open>Type hint wrappers of \<open>beartype.door._cls.doorsub\<close>\<close>

text \<open>
  The module \<open>doorsub.py\<close> declares four concrete wrapper classes: the subscripted
  wrapper \<open>_TypeHintSubscripted\<close> and its three arity-fixed leaves
  \<open>_TypeHintOriginIsinstanceableArgs1/2/3\<close>. The abstract middle class
  \<open>_TypeHintOriginIsinstanceable\<close> has no instances of its own (its
  \<open>_args_len_expected\<close> is abstract); its methods are inherited by the three leaves.
\<close>

datatype variant =
    TypeHintSubscripted
  | TypeHintOriginIsinstanceableArgs1
  | TypeHintOriginIsinstanceableArgs2
  | TypeHintOriginIsinstanceableArgs3

text \<open>
  The origin of a hint (\<open>_origin\<close>) is the singleton \<open>typing.Any\<close> or a class, named by
  its qualified name (two classes are the same object exactly when the names agree).
  The sign of a hint (\<open>_hint_sign\<close>) is a \<open>HintSign\<close> singleton, named by its name, or
  \<open>None\<close>.
\<close>

datatype origin = Any | Class string

type_synonym hint_sign = "string option"

text \<open>
  A wrapper carries \<open>type(self)\<close>, \<open>self._origin\<close>, \<open>self._hint_sign\<close> and
  \<open>self._args_wrapped_tuple\<close>, the wrappers of its child hints in order.
\<close>

datatype wrapper =
  TypeHint (type_of: variant) (origin: origin) (hint_sign: hint_sign)
    (args_wrapped_tuple: "wrapper list")

text \<open>
  \<open>isinstance(branch, cls)\<close> for \<open>cls\<close> one of the four concrete classes: every wrapper
  of this module is a \<open>_TypeHintSubscripted\<close>; the three leaves have no subclasses.
\<close>

fun isinstance :: "wrapper \<Rightarrow> variant \<Rightarrow> bool" where
  "isinstance branch TypeHintSubscripted = True"
| "isinstance branch cls = (type_of branch = cls)"

text \<open>
  \<open>_TypeHintSubscripted._is_args_ignorable\<close>:
  \<^verbatim>\<open>return all(hint_child._origin is Any for hint_child in self._args_wrapped_tuple)\<close>
\<close>

definition is_args_ignorable :: "wrapper \<Rightarrow> bool" where
  "is_args_ignorable self = list_all (\<lambda>hint_child. origin hint_child = Any) (args_wrapped_tuple self)"

text \<open>
  A comparison returns a truth value or raises: the builtin \<open>issubclass\<close> raises
  \<open>TypeError\<close> on an operand that is not a class (\<open>typing.Any\<close> is not one before
  Python 3.11). \<open>None\<close> is the raised exception. \<open>py_and\<close> is the operator \<open>and\<close> on
  such results: the right operand is evaluated only when the left one is true.
\<close>

fun py_and :: "bool option \<Rightarrow> bool option \<Rightarrow> bool option" where
  "py_and None b = None"
| "py_and (Some False) b = Some False"
| "py_and (Some True) b = b"

text \<open>
  Modelled from the spec: the operator \<open>self_child <= branch_child\<close> between two child
  wrappers belongs to the base class \<open>TypeHint\<close> of \<open>doorsuper.py\<close>, which is not among
  the sources. The specification gives \<open>is_subtype_of\<close> of a subscripted wrapper as the
  test of \<open>_is_le_branch\<close>, so two children are compared by the same function one level
  down.

  Everything else is \<open>_TypeHintSubscripted._is_le_branch\<close> of \<open>doorsub.py\<close> as written;
  \<open>all_le_zip\<close> is its \<open>all(... for ... in zip(...))\<close> over the two child tuples, which
  stops at the end of the shorter one, at the first pair that is not in order, or at a
  raised exception. The builtin \<open>issubclass\<close> is a parameter: the class hierarchy of the
  host program is not part of this module.
\<close>

fun is_le_branch :: "(origin \<Rightarrow> origin \<Rightarrow> bool option) \<Rightarrow> wrapper \<Rightarrow> wrapper \<Rightarrow> bool option"
  and all_le_zip ::
    "(origin \<Rightarrow> origin \<Rightarrow> bool option) \<Rightarrow> wrapper list \<Rightarrow> wrapper list \<Rightarrow> bool option"
where
  "is_le_branch issubclass (TypeHint cls org sig children) branch =
     (if is_args_ignorable branch then issubclass org (origin branch)
      else py_and (Some (isinstance branch cls))
             (py_and (issubclass org (origin branch))
                (all_le_zip issubclass children (args_wrapped_tuple branch))))"
| "all_le_zip issubclass [] branch_children = Some True"
| "all_le_zip issubclass (self_child # self_children) [] = Some True"
| "all_le_zip issubclass (self_child # self_children) (branch_child # branch_children) =
     py_and (is_le_branch issubclass self_child branch_child)
       (all_le_zip issubclass self_children branch_children)"

text \<open>
  Modelled from the spec: the operator \<open>this_child == that_child\<close> is \<open>TypeHint.__eq__\<close>
  of the absent \<open>doorsuper.py\<close>; it defers to the \<open>_is_equal\<close> of the left operand's
  class. The specification gives the equality of the base class as the relation induced
  by the order (\<open>A <= B and B <= A\<close>), which \<open>_TypeHintSubscripted\<close> inherits unchanged.
  This is \<open>equals\<close>.

  \<open>is_equal\<close> is \<open>_TypeHintOriginIsinstanceable._is_equal\<close> of \<open>doorsub.py\<close> as written,
  the method of the three leaves; \<open>all_equal_zip\<close> is its
  \<open>all(... for ... in zip(...))\<close>. The signs are compared by identity, the origins by
  \<open>==\<close>, which is identity for classes.
\<close>

fun equals :: "(origin \<Rightarrow> origin \<Rightarrow> bool option) \<Rightarrow> wrapper \<Rightarrow> wrapper \<Rightarrow> bool option"
  and is_equal :: "(origin \<Rightarrow> origin \<Rightarrow> bool option) \<Rightarrow> wrapper \<Rightarrow> wrapper \<Rightarrow> bool option"
  and all_equal_zip ::
    "(origin \<Rightarrow> origin \<Rightarrow> bool option) \<Rightarrow> wrapper list \<Rightarrow> wrapper list \<Rightarrow> bool option"
where
  "equals issubclass (TypeHint cls org sig children) other =
     (if cls = TypeHintSubscripted
      then py_and (is_le_branch issubclass (TypeHint cls org sig children) other)
             (is_le_branch issubclass other (TypeHint cls org sig children))
      else is_equal issubclass (TypeHint cls org sig children) other)"
| "is_equal issubclass (TypeHint cls org sig children) other =
     (if is_args_ignorable (TypeHint cls org sig children) \<and> is_args_ignorable other
      then Some (org = origin other)
      else if sig \<noteq> hint_sign other \<or>
              length children \<noteq> length (args_wrapped_tuple other)
      then Some False
      else all_equal_zip issubclass children (args_wrapped_tuple other))"
| "all_equal_zip issubclass [] that_children = Some True"
| "all_equal_zip issubclass (this_child # this_children) [] = Some True"
| "all_equal_zip issubclass (this_child # this_children) (that_child # that_children) =
     py_and (equals issubclass this_child that_child)
       (all_equal_zip issubclass this_children that_children)"

subsection \<open>Child materialisation\<close>

text \<open>
  \<open>_args_len_expected\<close>: the three leaves return 1, 2 and 3; the base class
  \<open>_TypeHintSubscripted\<close> has no such property and does not override \<open>_make_args\<close>.
\<close>

fun args_len_expected :: "variant \<Rightarrow> nat option" where
  "args_len_expected TypeHintSubscripted = None"
| "args_len_expected TypeHintOriginIsinstanceableArgs1 = Some 1"
| "args_len_expected TypeHintOriginIsinstanceableArgs2 = Some 2"
| "args_len_expected TypeHintOriginIsinstanceableArgs3 = Some 3"

text \<open>
  Python's \<open>str\<close> of a non-negative integer, as the f-string formats it; \<open>str_digit\<close>
  is the character of a digit below ten, the only numbers \<open>str_nat\<close> gives it.
\<close>

definition str_digit :: "nat \<Rightarrow> char" where
  "str_digit d = ''0123456789'' ! d"

fun str_nat :: "nat \<Rightarrow> string" where
  "str_nat n =
     (if n < 10 then [str_digit n]
      else str_nat (n div 10) @ [str_digit (n mod 10)])"

text \<open>\<open>str(type(self))\<close>, as the f-string of \<open>_make_args\<close> formats the class.\<close>

definition class_name :: "variant \<Rightarrow> string" where
  "class_name cls =
     (case cls of
        TypeHintSubscripted \<Rightarrow> ''_TypeHintSubscripted''
      | TypeHintOriginIsinstanceableArgs1 \<Rightarrow> ''_TypeHintOriginIsinstanceableArgs1''
      | TypeHintOriginIsinstanceableArgs2 \<Rightarrow> ''_TypeHintOriginIsinstanceableArgs2''
      | TypeHintOriginIsinstanceableArgs3 \<Rightarrow> ''_TypeHintOriginIsinstanceableArgs3'')"

definition str_type :: "variant \<Rightarrow> string" where
  "str_type cls =
     ''<class '' @ [CHR 0x27] @ ''beartype.door._cls.doorsub.'' @ class_name cls @ [CHR 0x27] @ ''>''"

datatype door_exception = BeartypeDoorException string

text \<open>
  \<open>_TypeHintOriginIsinstanceable._make_args\<close>. The tuple \<open>args\<close> is what
  \<open>super()._make_args()\<close> returned (the child hints of the wrapped hint, read by the
  absent base class); the base class \<open>_TypeHintSubscripted\<close> returns it unchecked.
\<close>

definition make_args :: "variant \<Rightarrow> 'a list \<Rightarrow> door_exception + 'a list" where
  "make_args cls args =
     (case args_len_expected cls of
        None \<Rightarrow> Inr args
      | Some expected \<Rightarrow>
          if length args \<noteq> expected
          then Inl (BeartypeDoorException
                 (str_type cls @ '' type must have '' @ str_nat expected @
                  '' argument(s), but got '' @ str_nat (length args) @ ''.''))
          else Inr args)"

text \<open>
  Modelled from the spec: the constructor of the absent base class \<open>TypeHint\<close>. The
  specification has the children materialised when the wrapper is built, a failure of
  the materialisation being fatal to the construction, and one child wrapper per child
  hint. The children are given here already wrapped.
\<close>

definition new_TypeHint ::
  "variant \<Rightarrow> origin \<Rightarrow> hint_sign \<Rightarrow> wrapper list \<Rightarrow> door_exception + wrapper" where
  "new_TypeHint cls org sig children =
     (case make_args cls children of
        Inl e \<Rightarrow> Inl e
      | Inr args \<Rightarrow> Inr (TypeHint cls org sig args))"

subsection \<open>Example hints\<close>

text \<open>
  A small class hierarchy for the examples: every class is a subclass of itself and of
  \<open>object\<close>, \<open>list\<close> is a subclass of \<open>Sequence\<close>, and the user-defined generic
  \<open>class MuhList(List[T])\<close> is a subclass of \<open>list\<close> and of \<open>Sequence\<close>; \<open>typing.Any\<close> is
  not a class, and \<open>issubclass\<close> raises on it.
\<close>

fun ex_issubclass :: "origin \<Rightarrow> origin \<Rightarrow> bool option" where
  "ex_issubclass (Class c) (Class d) =
     Some (c = d \<or> d = ''object'' \<or> (c = ''list'' \<and> d = ''Sequence'') \<or>
           (c = ''MuhList'' \<and> (d = ''list'' \<or> d = ''Sequence'')))"
| "ex_issubclass a b = None"

definition hint_int :: wrapper where
  "hint_int = TypeHint TypeHintSubscripted (Class ''int'') None []"

definition hint_str :: wrapper where
  "hint_str = TypeHint TypeHintSubscripted (Class ''str'') None []"

definition hint_object :: wrapper where
  "hint_object = TypeHint TypeHintSubscripted (Class ''object'') None []"

definition hint_Any :: wrapper where
  "hint_Any = TypeHint TypeHintSubscripted Any None []"

definition hint_list :: wrapper where
  "hint_list = TypeHint TypeHintSubscripted (Class ''list'') None []"

definition list_of :: "wrapper \<Rightarrow> wrapper" where
  "list_of child = TypeHint TypeHintOriginIsinstanceableArgs1 (Class ''list'') (Some ''List'') [child]"

definition sequence_of :: "wrapper \<Rightarrow> wrapper" where
  "sequence_of child =
     TypeHint TypeHintOriginIsinstanceableArgs1 (Class ''Sequence'') (Some ''Sequence'') [child]"

definition dict_of :: "wrapper \<Rightarrow> wrapper \<Rightarrow> wrapper" where
  "dict_of k v = TypeHint TypeHintOriginIsinstanceableArgs2 (Class ''dict'') (Some ''Dict'') [k, v]"

text \<open>
  The wrapper of \<open>MuhList[int]\<close>: a subscripted generic has no leaf class of its own and
  is wrapped by the base class.
\<close>

definition hint_MuhList_int :: wrapper where
  "hint_MuhList_int = TypeHint TypeHintSubscripted (Class ''MuhList'') (Some ''Generic'') [hint_int]"

subsection \<open>Well-formed wrappers\<close>

text \<open>The children of a wrapper are children that \<open>_make_args\<close> of its class returns.\<close>

definition arity_ok :: "wrapper \<Rightarrow> bool" where
  "arity_ok w = (make_args (type_of w) (args_wrapped_tuple w) = Inr (args_wrapped_tuple w))"

section \<open>Generics of \<open>beartype._util.hint.pep.proposal.pep484585.utilpepgeneric\<close>\<close>

text \<open>An exception raised: its class and its message.\<close>

datatype 'e exception = Exception 'e string

text \<open>
  The functions that \<open>utilpepgeneric.py\<close> imports from modules that are not among the
  sources, and the builtins it calls on a hint, are parameters: the testers and getters
  of \<open>utilpep484\<close> and \<open>utilpep585\<close> (a getter returns a tuple or raises),
  \<open>get_hint_pep_origin_or_none\<close> of \<open>utilpepget\<close>, \<open>isinstance(_, type)\<close> and \<open>repr\<close>.
  A hint is any object, of type \<open>'h\<close>; \<open>'e\<close> is the type of exception classes.
\<close>

record ('h, 'e) collaborators =
  is_hint_pep484_generic :: "'h \<Rightarrow> bool"
  is_hint_pep585_generic :: "'h \<Rightarrow> bool"
  get_hint_pep484_generic_bases_unerased :: "'h \<Rightarrow> 'e exception + 'h list"
  get_hint_pep585_generic_bases_unerased :: "'h \<Rightarrow> 'e exception + 'h list"
  get_hint_pep_origin_or_none :: "'h \<Rightarrow> 'h option"
  is_type :: "'h \<Rightarrow> bool"
  repr :: "'h \<Rightarrow> string"

definition is_hint_pep484585_generic :: "('h, 'e) collaborators \<Rightarrow> 'h \<Rightarrow> bool" where
  "is_hint_pep484585_generic env hint =
     (is_hint_pep484_generic env hint \<or> is_hint_pep585_generic env hint)"

text \<open>
  \<open>get_hint_pep484585_generic_bases_unerased\<close>. An exception of the chosen getter
  passes through; \<open>not hint_pep_generic_bases_unerased\<close> is the test for the empty tuple.
  The \<open>assert\<close> on \<open>exception_prefix\<close> holds of every string.
\<close>

definition get_hint_pep484585_generic_bases_unerased ::
  "('h, 'e) collaborators \<Rightarrow> 'h \<Rightarrow> 'e \<Rightarrow> string \<Rightarrow> 'e exception + 'h list" where
  "get_hint_pep484585_generic_bases_unerased env hint exception_cls exception_prefix =
     (case (if is_hint_pep585_generic env hint
            then get_hint_pep585_generic_bases_unerased env hint
            else get_hint_pep484_generic_bases_unerased env hint) of
        Inl e \<Rightarrow> Inl e
      | Inr hint_pep_generic_bases_unerased \<Rightarrow>
          if hint_pep_generic_bases_unerased = []
          then Inl (Exception exception_cls
                 (exception_prefix @ ''PEP 484 or 585 generic '' @ repr env hint @
                  '' subclasses no superclasses.''))
          else Inr hint_pep_generic_bases_unerased)"

text \<open>
  \<open>get_hint_pep484585_generic_type_or_none\<close>; \<open>isinstance(None, type)\<close> is false.
\<close>

definition get_hint_pep484585_generic_type_or_none ::
  "('h, 'e) collaborators \<Rightarrow> 'h \<Rightarrow> 'h option" where
  "get_hint_pep484585_generic_type_or_none env hint =
     (let hint_origin = get_hint_pep_origin_or_none env hint in
      if (case hint_origin of None \<Rightarrow> False | Some t \<Rightarrow> is_type env t) then hint_origin
      else if is_type env hint then Some hint
      else None)"

definition get_hint_pep484585_generic_type ::
  "('h, 'e) collaborators \<Rightarrow> 'h \<Rightarrow> 'e \<Rightarrow> string \<Rightarrow> 'e exception + 'h" where
  "get_hint_pep484585_generic_type env hint exception_cls exception_prefix =
     (case get_hint_pep484585_generic_type_or_none env hint of
        None \<Rightarrow> Inl (Exception exception_cls
                 (exception_prefix @ ''PEP 484 or 585 generic '' @ repr env hint @
                  '' not generic (i.e., originates from no isinstanceable class).''))
      | Some hint_generic_type \<Rightarrow> Inr hint_generic_type)"

text \<open>
  Example collaborators over hints written as strings: \<open>MuhGeneric\<close> is a PEP 484
  generic with three pseudo-superclasses, \<open>MuhList\<close> a PEP 585 generic with one, and
  \<open>MuhEmpty\<close> a PEP 585 generic whose getter finds none.
\<close>

definition ex_env :: "(string, string) collaborators" where
  "ex_env = \<lparr>
     is_hint_pep484_generic = (\<lambda>h. h = ''MuhGeneric''),
     is_hint_pep585_generic = (\<lambda>h. h = ''MuhList'' \<or> h = ''MuhEmpty''),
     get_hint_pep484_generic_bases_unerased =
       (\<lambda>h. if h = ''MuhGeneric'' then Inr [''Iterable[T]'', ''Container[T]'', ''Generic[T]'']
            else Inl (Exception ''BeartypeDecorHintPepException'' ''not a PEP 484 generic'')),
     get_hint_pep585_generic_bases_unerased =
       (\<lambda>h. if h = ''MuhList'' then Inr [''list[T]'']
            else if h = ''MuhEmpty'' then Inr []
            else Inl (Exception ''BeartypeDecorHintPepException'' ''not a PEP 585 generic'')),
     get_hint_pep_origin_or_none =
       (\<lambda>h. if h = ''List[int]'' then Some ''list''
            else if h = ''MuhGeneric[int]'' then Some ''MuhGeneric''
            else if h = ''Union[int, str]'' then Some ''Union''
            else None),
     is_type = (\<lambda>h. h \<in> set [''list'', ''int'', ''MuhGeneric'', ''MuhList'']),
     repr = (\<lambda>h. h) \<rparr>"

section \<open>Properties of the wrappers\<close>

subsection \<open>The methods at an arbitrary wrapper\<close>

lemma py_and_True [simp]: "py_and a b = Some True \<longleftrightarrow> a = Some True \<and> b = Some True"
  by (cases "(a, b)" rule: py_and.cases) auto

lemma py_and_not_None: "a \<noteq> None \<Longrightarrow> b \<noteq> None \<Longrightarrow> py_and a b \<noteq> None"
  by (cases "(a, b)" rule: py_and.cases) auto

lemma is_le_branch_unfold:
  "is_le_branch issubclass self branch =
     (if is_args_ignorable branch then issubclass (origin self) (origin branch)
      else py_and (Some (isinstance branch (type_of self)))
             (py_and (issubclass (origin self) (origin branch))
                (all_le_zip issubclass (args_wrapped_tuple self) (args_wrapped_tuple branch))))"
  by (cases self) simp

lemma is_le_branch_True:
  "is_le_branch issubclass self branch = Some True \<longleftrightarrow>
     (if is_args_ignorable branch then issubclass (origin self) (origin branch) = Some True
      else (isinstance branch (type_of self) \<and>
            issubclass (origin self) (origin branch) = Some True \<and>
            all_le_zip issubclass (args_wrapped_tuple self) (args_wrapped_tuple branch) = Some True))"
  by (simp add: is_le_branch_unfold [of issubclass self branch])

lemma is_equal_unfold:
  "is_equal issubclass self other =
     (if is_args_ignorable self \<and> is_args_ignorable other
      then Some (origin self = origin other)
      else if hint_sign self \<noteq> hint_sign other \<or>
              length (args_wrapped_tuple self) \<noteq> length (args_wrapped_tuple other)
      then Some False
      else all_equal_zip issubclass (args_wrapped_tuple self) (args_wrapped_tuple other))"
  by (cases self) simp

lemma equals_unfold:
  "equals issubclass self other =
     (if type_of self = TypeHintSubscripted
      then py_and (is_le_branch issubclass self other) (is_le_branch issubclass other self)
      else is_equal issubclass self other)"
  by (cases self) simp

lemma isinstance_leaf:
  "cls \<noteq> TypeHintSubscripted \<Longrightarrow> isinstance branch cls = (type_of branch = cls)"
  by (cases cls) simp_all

lemma not_ignorable_nonempty: "\<not> is_args_ignorable w \<Longrightarrow> args_wrapped_tuple w \<noteq> []"
  by (auto simp: is_args_ignorable_def)

text \<open>The loop over \<open>zip\<close> looks at the positions below the shorter length.\<close>

lemma all_le_zip_nth:
  "all_le_zip issubclass xs ys = Some True \<longleftrightarrow>
     (\<forall>i < min (length xs) (length ys). is_le_branch issubclass (xs ! i) (ys ! i) = Some True)"
proof (induction xs arbitrary: ys)
  case Nil
  show ?case by simp
next
  case (Cons x xs)
  show ?case
  proof (cases ys)
    case Nil
    then show ?thesis by simp
  next
    case (Cons y ys')
    then show ?thesis
      using Cons.IH [of ys'] by (auto simp: less_Suc_eq_0_disj)
  qed
qed

lemma all_equal_zip_list_all2:
  "length xs = length ys \<Longrightarrow>
     all_equal_zip issubclass xs ys = Some True \<longleftrightarrow>
       list_all2 (\<lambda>a b. equals issubclass a b = Some True) xs ys"
  by (induction xs ys rule: list_induct2) simp_all

text \<open>The tests raise only where \<open>issubclass\<close> does.\<close>

lemma is_le_branch_returns:
  "(\<forall>x y. issubclass x y \<noteq> None) \<Longrightarrow> is_le_branch issubclass self branch \<noteq> None"
  "(\<forall>x y. issubclass x y \<noteq> None) \<Longrightarrow> all_le_zip issubclass xs ys \<noteq> None"
proof (induction issubclass self branch and issubclass xs ys rule: is_le_branch_all_le_zip.induct)
  case (1 issubclass cls org sig children branch)
  have a: "issubclass org (origin branch) \<noteq> None" using "1.prems" by blast
  show ?case
  proof (cases "is_args_ignorable branch")
    case True
    then show ?thesis using a by simp
  next
    case False
    have "all_le_zip issubclass children (args_wrapped_tuple branch) \<noteq> None"
      using "1.IH" [OF False] "1.prems" by blast
    then show ?thesis using False a
      by (simp del: py_and_True add: py_and_not_None)
  qed
next
  case (4 issubclass self_child self_children branch_child branch_children)
  then show ?case by (simp del: py_and_True add: py_and_not_None)
qed simp_all

lemmas ex_defs = hint_int_def hint_str_def hint_object_def hint_Any_def hint_list_def
  list_of_def sequence_of_def dict_of_def

subsection \<open>Subtype test against a subscripted right operand\<close>

lemma isinstance_iff:
  "isinstance branch cls \<longleftrightarrow> cls = TypeHintSubscripted \<or> type_of branch = cls"
  by (cases cls) auto

text \<open>
  What \<open>_is_le_branch\<close> computes when the arguments of \<open>other\<close> are not ignorable: it is
  true exactly when \<open>self\<close> is of the base class or \<open>other\<close> is of the class of \<open>self\<close>,
  the origin of \<open>self\<close> is a subclass of the origin of \<open>other\<close>, and each child of \<open>self\<close>
  is a subtype of the child of \<open>other\<close> at the same position, for the positions that both
  tuples have. It raises nothing unless \<open>issubclass\<close> does.
\<close>

lemma is_le_branch_not_ignorable:
  assumes "\<not> is_args_ignorable other"
  shows "(is_le_branch issubclass self other = Some True \<longleftrightarrow>
          ((type_of self = TypeHintSubscripted \<or> type_of other = type_of self) \<and>
           issubclass (origin self) (origin other) = Some True \<and>
           (\<forall>i < min (length (args_wrapped_tuple self)) (length (args_wrapped_tuple other)).
               is_le_branch issubclass (args_wrapped_tuple self ! i) (args_wrapped_tuple other ! i)
                 = Some True))) \<and>
         ((\<forall>x y. issubclass x y \<noteq> None) \<longrightarrow> is_le_branch issubclass self other \<noteq> None)"
  using assms is_le_branch_returns(1) [of issubclass self other]
  by (simp add: is_le_branch_True [of issubclass self other] all_le_zip_nth isinstance_iff)

text \<open>
  Claim C2. The claim requires, for a positive answer against a right operand whose
  arguments are not ignorable, that \<open>other\<close> be of the same concrete class as \<open>self\<close>, as
  the comment in \<open>_is_le_branch\<close> does (``of the same concrete subclass''). The method
  tests \<open>isinstance(branch, type(self))\<close>, which every wrapper of this module passes when
  \<open>self\<close> is of the base class. The wrapper of \<open>MuhList[int]\<close>, of the base class, is
  found to be a subtype of the wrapper of \<open>List[int]\<close>, of the one-argument class: the
  classes differ, the arguments of \<open>List[int]\<close> are not ignorable, \<open>MuhList\<close> is a
  subclass of \<open>list\<close> and \<open>int\<close> is a subtype of \<open>int\<close>.
\<close>

theorem is_le_branch_across_variants:
  "type_of hint_MuhList_int = TypeHintSubscripted \<and>
   type_of (list_of hint_int) = TypeHintOriginIsinstanceableArgs1 \<and>
   \<not> is_args_ignorable (list_of hint_int) \<and>
   isinstance (list_of hint_int) (type_of hint_MuhList_int) \<and>
   is_le_branch ex_issubclass hint_MuhList_int (list_of hint_int) = Some True"
  by (simp add: ex_defs hint_MuhList_int_def is_args_ignorable_def)

subsection \<open>Equality of arity-fixed wrappers\<close>

text \<open>
  Claim C3. For \<open>self\<close> of an arity-fixed class, equality with \<open>other\<close> is: equality of
  the origins when the arguments of both are ignorable; otherwise false when the signs
  differ or the numbers of children differ; otherwise it holds exactly when the children
  are equal position by position, in order.
\<close>

theorem is_equal_structure:
  assumes "type_of self \<noteq> TypeHintSubscripted"
  shows "equals issubclass self other = is_equal issubclass self other \<and>
         (is_args_ignorable self \<and> is_args_ignorable other \<longrightarrow>
            is_equal issubclass self other = Some (origin self = origin other)) \<and>
         (\<not> (is_args_ignorable self \<and> is_args_ignorable other) \<and>
          (hint_sign self \<noteq> hint_sign other \<or>
           length (args_wrapped_tuple self) \<noteq> length (args_wrapped_tuple other)) \<longrightarrow>
            is_equal issubclass self other = Some False) \<and>
         (\<not> (is_args_ignorable self \<and> is_args_ignorable other) \<and>
          hint_sign self = hint_sign other \<and>
          length (args_wrapped_tuple self) = length (args_wrapped_tuple other) \<longrightarrow>
            (is_equal issubclass self other = Some True \<longleftrightarrow>
             list_all2 (\<lambda>this_child that_child. equals issubclass this_child that_child = Some True)
               (args_wrapped_tuple self) (args_wrapped_tuple other)))"
  using assms
  by (auto simp: equals_unfold [of issubclass self other] is_equal_unfold [of issubclass self other]
      all_equal_zip_list_all2)

text \<open>\<open>dict[str, int]\<close> equals itself and differs from \<open>dict[int, str]\<close>.\<close>

theorem is_equal_structure_witness:
  "type_of (dict_of hint_str hint_int) \<noteq> TypeHintSubscripted \<and>
   equals ex_issubclass (dict_of hint_str hint_int) (dict_of hint_str hint_int) = Some True \<and>
   equals ex_issubclass (dict_of hint_str hint_int) (dict_of hint_int hint_str) \<noteq> Some True"
proof -
  have h: "type_of (dict_of hint_str hint_int) \<noteq> TypeHintSubscripted" by (simp add: dict_of_def)
  have ni: "\<not> is_args_ignorable (dict_of hint_str hint_int)"
    by (simp add: ex_defs is_args_ignorable_def)
  have k1: "equals ex_issubclass hint_str hint_str = Some True"
      "equals ex_issubclass hint_int hint_int = Some True"
    by (simp_all add: ex_defs is_args_ignorable_def)
  have k2: "equals ex_issubclass hint_str hint_int \<noteq> Some True"
    by (simp add: ex_defs is_args_ignorable_def)
  from is_equal_structure [OF h, of ex_issubclass "dict_of hint_str hint_int"]
       is_equal_structure [OF h, of ex_issubclass "dict_of hint_int hint_str"] ni k1 k2 h
  show ?thesis by (simp add: dict_of_def)
qed

subsection \<open>Ignorable arguments on the right\<close>

text \<open>
  Claim C4. When the arguments of \<open>B\<close> are ignorable, the subtype test of any wrapper
  against \<open>B\<close> is the test \<open>issubclass\<close> of the two origins, whatever the class, the sign
  and the children of the left wrapper are; so it is true when that test is.
\<close>

theorem is_le_branch_ignorable_absorption:
  assumes "is_args_ignorable B"
  shows "is_le_branch issubclass (TypeHint cls org sig children) B = issubclass org (origin B) \<and>
         (issubclass org (origin B) = Some True \<longrightarrow>
            is_le_branch issubclass (TypeHint cls org sig children) B = Some True)"
  using assms by simp

theorem is_le_branch_ignorable_absorption_witness:
  "is_args_ignorable (list_of hint_Any) \<and>
   is_le_branch ex_issubclass
     (TypeHint TypeHintOriginIsinstanceableArgs1 (Class ''list'') (Some ''List'')
        [dict_of hint_str hint_int])
     (list_of hint_Any) = Some True"
proof -
  have h: "is_args_ignorable (list_of hint_Any)" by (simp add: ex_defs is_args_ignorable_def)
  from is_le_branch_ignorable_absorption [OF h, of ex_issubclass
      TypeHintOriginIsinstanceableArgs1 "Class ''list''" "Some ''List''" "[dict_of hint_str hint_int]"] h
  show ?thesis by (simp add: list_of_def)
qed

text \<open>
  Claim C10 (amended). A wrapper \<open>B\<close> without children has ignorable arguments. The
  subtype test against it is the test \<open>issubclass\<close> of the origins. The equality of an
  arity-fixed wrapper \<open>A\<close> with it holds exactly when the arguments of \<open>A\<close> are ignorable
  too and the origins are equal: equal origins alone do not suffice.
\<close>

theorem empty_children_right_operand:
  assumes "args_wrapped_tuple B = []"
  shows "is_args_ignorable B \<and>
         is_le_branch issubclass A B = issubclass (origin A) (origin B) \<and>
         is_equal issubclass A B = Some (is_args_ignorable A \<and> origin A = origin B)"
proof -
  have ign: "is_args_ignorable B" using assms by (simp add: is_args_ignorable_def)
  have le: "is_le_branch issubclass A B = issubclass (origin A) (origin B)"
    using ign by (simp add: is_le_branch_unfold [of issubclass A B])
  have eq: "is_equal issubclass A B = Some (is_args_ignorable A \<and> origin A = origin B)"
    using ign assms not_ignorable_nonempty [of A]
    by (auto simp: is_equal_unfold [of issubclass A B])
  from ign le eq show ?thesis by simp
qed

theorem empty_children_right_operand_witness:
  "args_wrapped_tuple hint_list = [] \<and> is_args_ignorable hint_list \<and>
   is_le_branch ex_issubclass (list_of hint_int) hint_list = Some True \<and>
   is_equal ex_issubclass (list_of hint_int) hint_list = Some False"
proof -
  have h: "args_wrapped_tuple hint_list = []" by (simp add: hint_list_def)
  from empty_children_right_operand [OF h, of ex_issubclass "list_of hint_int"] h
  show ?thesis by (simp add: ex_defs is_args_ignorable_def)
qed

text \<open>
  \<open>list[int]\<close> and \<open>list[Any]\<close> have the origin of the childless wrapper of \<open>list\<close>; the
  first is not equal to it, the second is.
\<close>

theorem empty_children_equality_counterexample:
  "args_wrapped_tuple hint_list = [] \<and>
   origin (list_of hint_int) = origin hint_list \<and>
   origin (list_of hint_Any) = origin hint_list \<and>
   is_equal ex_issubclass (list_of hint_int) hint_list = Some False \<and>
   is_equal ex_issubclass (list_of hint_Any) hint_list = Some True"
  by (simp add: ex_defs is_args_ignorable_def)

subsection \<open>Arity of the leaves\<close>

lemma arity_ok_length:
  "arity_ok w \<Longrightarrow> args_len_expected (type_of w) = Some n \<Longrightarrow> length (args_wrapped_tuple w) = n"
  by (auto simp: arity_ok_def make_args_def split: if_splits)

text \<open>
  Claim C5. For a class of expected arity \<open>expected\<close> (1, 2 or 3), \<open>_make_args\<close> on a
  tuple of another length raises \<open>BeartypeDoorException\<close> with a message that names
  the class, the expected number and the number found; in particular on the empty tuple.
  What it returns is the tuple it was given, of the expected length. So the construction
  of a wrapper fails with that exception, and a wrapper that is constructed has the
  expected number of children.
\<close>

theorem make_args_bad_arity:
  fixes args :: "'a list"
  assumes "args_len_expected cls = Some expected"
  shows "(length args \<noteq> expected \<longrightarrow>
            make_args cls args = Inl (BeartypeDoorException
              (str_type cls @ '' type must have '' @ str_nat expected @
               '' argument(s), but got '' @ str_nat (length args) @ ''.''))) \<and>
         make_args cls ([] :: 'a list) = Inl (BeartypeDoorException
              (str_type cls @ '' type must have '' @ str_nat expected @
               '' argument(s), but got 0.'')) \<and>
         (\<forall>r. make_args cls args = Inr r \<longrightarrow> r = args \<and> length r = expected) \<and>
         (length children \<noteq> expected \<longrightarrow>
            new_TypeHint cls org sig children = Inl (BeartypeDoorException
              (str_type cls @ '' type must have '' @ str_nat expected @
               '' argument(s), but got '' @ str_nat (length children) @ ''.''))) \<and>
         (\<forall>w. new_TypeHint cls org sig children = Inr w \<longrightarrow>
              length (args_wrapped_tuple w) = expected)"
proof -
  have "expected \<noteq> 0" using assms by (cases cls) auto
  then show ?thesis using assms
    by (auto simp: make_args_def new_TypeHint_def str_digit_def split: if_splits)
qed

text \<open>A two-argument wrapper built from three children, and from none.\<close>

theorem make_args_bad_arity_witness:
  "args_len_expected TypeHintOriginIsinstanceableArgs2 = Some 2 \<and>
   new_TypeHint TypeHintOriginIsinstanceableArgs2 (Class ''dict'') (Some ''Dict'')
       [hint_str, hint_int, hint_int] =
     Inl (BeartypeDoorException
       (''<class '' @ [CHR 0x27] @
        ''beartype.door._cls.doorsub._TypeHintOriginIsinstanceableArgs2'' @ [CHR 0x27] @
        ''> type must have 2 argument(s), but got 3.'')) \<and>
   make_args TypeHintOriginIsinstanceableArgs2 ([] :: wrapper list) =
     Inl (BeartypeDoorException
       (''<class '' @ [CHR 0x27] @
        ''beartype.door._cls.doorsub._TypeHintOriginIsinstanceableArgs2'' @ [CHR 0x27] @
        ''> type must have 2 argument(s), but got 0.''))"
proof -
  have h: "args_len_expected TypeHintOriginIsinstanceableArgs2 = Some 2" by simp
  from make_args_bad_arity [OF h, of "[] :: wrapper list" "[hint_str, hint_int, hint_int]"
      "Class ''dict''" "Some ''Dict''"] h
  show ?thesis by (simp add: str_type_def class_name_def str_digit_def)
qed

text \<open>
  Claim C7. Two wrappers of different arity-fixed classes, each with the children that
  \<open>_make_args\<close> of its class accepts and with arguments that are not ignorable, are not
  equal and not subtypes of one another, in either direction: both tests return false,
  and \<open>issubclass\<close> is not consulted, so nothing is raised whatever its behaviour.
\<close>

theorem different_leaf_variants_incomparable:
  assumes "args_len_expected (type_of A) = Some m" and "args_len_expected (type_of B) = Some n"
    and "type_of A \<noteq> type_of B"
    and "arity_ok A" and "arity_ok B"
    and "\<not> is_args_ignorable A" and "\<not> is_args_ignorable B"
  shows "equals issubclass A B = Some False \<and> equals issubclass B A = Some False \<and>
         is_equal issubclass A B = Some False \<and> is_equal issubclass B A = Some False \<and>
         is_le_branch issubclass A B = Some False \<and> is_le_branch issubclass B A = Some False"
proof -
  have leafA: "type_of A \<noteq> TypeHintSubscripted" and leafB: "type_of B \<noteq> TypeHintSubscripted"
    using assms(1,2) by auto
  have "m \<noteq> n" using assms(1,2,3) by (cases "type_of A"; cases "type_of B") auto
  then have len: "length (args_wrapped_tuple A) \<noteq> length (args_wrapped_tuple B)"
    using arity_ok_length [OF assms(4) assms(1)] arity_ok_length [OF assms(5) assms(2)] by simp
  have "\<not> isinstance B (type_of A)" "\<not> isinstance A (type_of B)"
    using leafA leafB assms(3) by (auto simp: isinstance_leaf)
  then show ?thesis using assms(6,7) len leafA leafB
    by (simp add: equals_unfold is_equal_unfold is_le_branch_unfold)
qed

text \<open>\<open>list[int]\<close> and \<open>dict[str, int]\<close>.\<close>

theorem different_leaf_variants_incomparable_witness:
  "equals ex_issubclass (list_of hint_int) (dict_of hint_str hint_int) = Some False \<and>
   equals ex_issubclass (dict_of hint_str hint_int) (list_of hint_int) = Some False \<and>
   is_le_branch ex_issubclass (list_of hint_int) (dict_of hint_str hint_int) = Some False \<and>
   is_le_branch ex_issubclass (dict_of hint_str hint_int) (list_of hint_int) = Some False"
proof -
  have h: "args_len_expected (type_of (list_of hint_int)) = Some 1"
      "args_len_expected (type_of (dict_of hint_str hint_int)) = Some 2"
      "type_of (list_of hint_int) \<noteq> type_of (dict_of hint_str hint_int)"
      "arity_ok (list_of hint_int)" "arity_ok (dict_of hint_str hint_int)"
      "\<not> is_args_ignorable (list_of hint_int)" "\<not> is_args_ignorable (dict_of hint_str hint_int)"
    by (simp_all add: ex_defs arity_ok_def make_args_def is_args_ignorable_def)
  from different_leaf_variants_incomparable [OF h, of ex_issubclass]
  show ?thesis by simp
qed

section \<open>Properties of the generics\<close>

text \<open>
  What \<open>get_hint_pep484585_generic_bases_unerased\<close> does at every hint. It never
  returns the empty tuple: what it returns is the non-empty tuple that the getter of the
  hint's dialect returned, and every such tuple is returned. When that getter returns
  the empty tuple, the exception of the class \<open>exception_cls\<close> is raised, with a message
  that starts with \<open>exception_prefix\<close> and contains the representation of the hint. When
  that getter raises, its exception leaves the function as it is.
\<close>

lemma generic_bases_unerased_outcomes:
  "let retrieved = (if is_hint_pep585_generic env hint
                    then get_hint_pep585_generic_bases_unerased env hint
                    else get_hint_pep484_generic_bases_unerased env hint);
       result = get_hint_pep484585_generic_bases_unerased env hint exception_cls exception_prefix;
       message = exception_prefix @ ''PEP 484 or 585 generic '' @ repr env hint @
                  '' subclasses no superclasses.''
   in result \<noteq> Inr [] \<and>
      (\<forall>bases. result = Inr bases \<longrightarrow> bases \<noteq> [] \<and> retrieved = Inr bases) \<and>
      (\<forall>bases. retrieved = Inr bases \<longrightarrow> bases \<noteq> [] \<longrightarrow> result = Inr bases) \<and>
      (retrieved = Inr [] \<longrightarrow> result = Inl (Exception exception_cls message)) \<and>
      (\<forall>e. retrieved = Inl e \<longrightarrow> result = Inl e) \<and>
      prefix exception_prefix message \<and> sublist (repr env hint) message"
proof -
  have sub: "sublist (repr env hint)
     (exception_prefix @ ''PEP 484 or 585 generic '' @ repr env hint @ '' subclasses no superclasses.'')"
    unfolding sublist_def
    by (rule exI [of _ "exception_prefix @ ''PEP 484 or 585 generic ''"],
        rule exI [of _ "'' subclasses no superclasses.''"]) simp
  show ?thesis
    unfolding Let_def get_hint_pep484585_generic_bases_unerased_def
    using sub by (auto split: sum.splits)
qed

text \<open>A generic without pseudo-superclasses, and one with three.\<close>

lemma generic_bases_unerased_outcomes_examples:
  "get_hint_pep484585_generic_bases_unerased ex_env ''MuhEmpty'' ''GenericResolutionError''
       ''@beartyped f() '' =
     Inl (Exception ''GenericResolutionError''
           ''@beartyped f() PEP 484 or 585 generic MuhEmpty subclasses no superclasses.'') \<and>
   get_hint_pep484585_generic_bases_unerased ex_env ''MuhGeneric'' ''GenericResolutionError''
       ''@beartyped f() '' =
     Inr [''Iterable[T]'', ''Container[T]'', ''Generic[T]'']"
  using generic_bases_unerased_outcomes
          [of ex_env "''MuhEmpty''" "''GenericResolutionError''" "''@beartyped f() ''"]
        generic_bases_unerased_outcomes
          [of ex_env "''MuhGeneric''" "''GenericResolutionError''" "''@beartyped f() ''"]
  by (simp add: Let_def ex_env_def)

text \<open>
  Claim C6. The claim has every hint either return a non-empty tuple or, the getter
  finding none, raise the exception of the class \<open>exception_cls\<close> with
  \<open>exception_prefix\<close> and the representation of the hint in its message; the docstring
  promises \<open>exception_cls\<close> also for a hint that is no generic. At \<open>int\<close>, which is
  neither a PEP 484 nor a PEP 585 generic, the getter of PEP 484 raises its own
  exception, and the function raises that one: of another class than \<open>exception_cls\<close>,
  with a message that has neither \<open>exception_prefix\<close> nor the representation of the hint.
\<close>

theorem generic_bases_unerased_non_generic:
  "\<not> is_hint_pep484585_generic ex_env ''int'' \<and>
   get_hint_pep484585_generic_bases_unerased ex_env ''int'' ''GenericResolutionError''
       ''@beartyped f() '' =
     Inl (Exception ''BeartypeDecorHintPepException'' ''not a PEP 484 generic'') \<and>
   ''BeartypeDecorHintPepException'' \<noteq> ''GenericResolutionError'' \<and>
   \<not> prefix ''@beartyped f() '' ''not a PEP 484 generic''"
  by (simp add: is_hint_pep484585_generic_def get_hint_pep484585_generic_bases_unerased_def ex_env_def)

text \<open>
  Claim C8. \<open>get_hint_pep484585_generic_type_or_none\<close> returns, in this order: the
  origin that \<open>get_hint_pep_origin_or_none\<close> finds when it is a class, whether or not the
  hint is a class; else the hint when the hint is a class; else \<open>None\<close>. It is a total
  function of the hint: it raises nothing. \<open>get_hint_pep484585_generic_type\<close> returns
  the same class when there is one, and raises the exception of the class
  \<open>exception_cls\<close> exactly when the other returns \<open>None\<close>.
\<close>

theorem generic_type_or_none_priority:
  "(\<forall>t. get_hint_pep_origin_or_none env hint = Some t \<and> is_type env t \<longrightarrow>
        get_hint_pep484585_generic_type_or_none env hint = Some t) \<and>
   (\<not> (\<exists>t. get_hint_pep_origin_or_none env hint = Some t \<and> is_type env t) \<and> is_type env hint \<longrightarrow>
        get_hint_pep484585_generic_type_or_none env hint = Some hint) \<and>
   (\<not> (\<exists>t. get_hint_pep_origin_or_none env hint = Some t \<and> is_type env t) \<and> \<not> is_type env hint \<longrightarrow>
        get_hint_pep484585_generic_type_or_none env hint = None) \<and>
   (\<forall>c. get_hint_pep484585_generic_type_or_none env hint = Some c \<longrightarrow>
        get_hint_pep484585_generic_type env hint exception_cls exception_prefix = Inr c) \<and>
   (get_hint_pep484585_generic_type_or_none env hint = None \<longrightarrow>
        get_hint_pep484585_generic_type env hint exception_cls exception_prefix =
          Inl (Exception exception_cls
                (exception_prefix @ ''PEP 484 or 585 generic '' @ repr env hint @
                 '' not generic (i.e., originates from no isinstanceable class).''))) \<and>
   ((\<exists>e. get_hint_pep484585_generic_type env hint exception_cls exception_prefix = Inl e) \<longleftrightarrow>
        get_hint_pep484585_generic_type_or_none env hint = None)"
  by (auto simp: get_hint_pep484585_generic_type_or_none_def get_hint_pep484585_generic_type_def
      Let_def split: option.splits)

text \<open>
  \<open>List[int]\<close> has the origin \<open>list\<close>; \<open>MuhGeneric\<close> is a class with no origin, and
  \<open>MuhGeneric[int]\<close> has it for origin; the origin of \<open>Union[int, str]\<close> is no class.
\<close>

theorem generic_type_or_none_priority_witness:
  "get_hint_pep484585_generic_type_or_none ex_env ''List[int]'' = Some ''list'' \<and>
   get_hint_pep484585_generic_type_or_none ex_env ''MuhGeneric'' = Some ''MuhGeneric'' \<and>
   get_hint_pep484585_generic_type_or_none ex_env ''MuhGeneric[int]'' = Some ''MuhGeneric'' \<and>
   get_hint_pep484585_generic_type_or_none ex_env ''Union[int, str]'' = None \<and>
   get_hint_pep484585_generic_type ex_env ''List[int]'' ''NotGenericError'' ''p '' = Inr ''list'' \<and>
   get_hint_pep484585_generic_type ex_env ''Union[int, str]'' ''NotGenericError'' ''p '' =
     Inl (Exception ''NotGenericError''
       ''p PEP 484 or 585 generic Union[int, str] not generic (i.e., originates from no isinstanceable class).'')"
  using generic_type_or_none_priority [of ex_env "''List[int]''" "''NotGenericError''" "''p ''"]
        generic_type_or_none_priority [of ex_env "''MuhGeneric''" "''NotGenericError''" "''p ''"]
        generic_type_or_none_priority [of ex_env "''MuhGeneric[int]''" "''NotGenericError''" "''p ''"]
        generic_type_or_none_priority [of ex_env "''Union[int, str]''" "''NotGenericError''" "''p ''"]
  by (simp add: ex_env_def)

text \<open>
  Claim C9. For a hint that \<open>is_hint_pep484585_generic\<close> accepts, the getter of the
  bases chooses between two getters by the PEP 585 tester alone: when that tester holds,
  the tuples returned are the non-empty tuples of the PEP 585 getter; otherwise the hint
  is a PEP 484 generic and the tuples returned are the non-empty tuples of the PEP 484
  getter. (What each test costs is not a property of the values computed.)
\<close>

theorem generic_bases_unerased_dispatch:
  assumes "is_hint_pep484585_generic env hint"
  shows "(is_hint_pep585_generic env hint \<longrightarrow>
            (\<forall>bases. get_hint_pep484585_generic_bases_unerased env hint exception_cls exception_prefix
                        = Inr bases
               \<longleftrightarrow> get_hint_pep585_generic_bases_unerased env hint = Inr bases \<and> bases \<noteq> [])) \<and>
         (\<not> is_hint_pep585_generic env hint \<longrightarrow>
            is_hint_pep484_generic env hint \<and>
            (\<forall>bases. get_hint_pep484585_generic_bases_unerased env hint exception_cls exception_prefix
                        = Inr bases
               \<longleftrightarrow> get_hint_pep484_generic_bases_unerased env hint = Inr bases \<and> bases \<noteq> []))"
  using assms
  by (auto simp: is_hint_pep484585_generic_def get_hint_pep484585_generic_bases_unerased_def
      split: sum.splits)

theorem generic_bases_unerased_dispatch_witness:
  "is_hint_pep484585_generic ex_env ''MuhList'' \<and> is_hint_pep484585_generic ex_env ''MuhGeneric'' \<and>
   get_hint_pep484585_generic_bases_unerased ex_env ''MuhList'' ''E'' [] = Inr [''list[T]''] \<and>
   get_hint_pep484585_generic_bases_unerased ex_env ''MuhGeneric'' ''E'' [] =
     Inr [''Iterable[T]'', ''Container[T]'', ''Generic[T]'']"
proof -
  have h: "is_hint_pep484585_generic ex_env ''MuhList''"
      "is_hint_pep484585_generic ex_env ''MuhGeneric''"
    by (simp_all add: is_hint_pep484585_generic_def ex_env_def)
  from generic_bases_unerased_dispatch [OF h(1), of "''E''" "[]"]
       generic_bases_unerased_dispatch [OF h(2), of "''E''" "[]"] h
  show ?thesis by (simp add: ex_env_def)
qed

end
